theory Spec2Isabelle
  imports Complex_Main "HOL-Library.AList" "HOL-Library.Log_Nat" "HOL-Library.Word"
    "HOL-Library.List_Lexorder"
begin

section \<open>Python values used by the notebooks\<close>

text \<open>
  The notebooks are Python. Exceptions are values of \<open>py_error\<close>; a computation that may
  raise returns \<open>py_error + 'a\<close>, with \<open>Inl\<close> for the exception.
\<close>

datatype py_error = IndexError | KeyError | ValueError | OverflowError

subsection \<open>Dictionaries\<close>

text \<open>
  A Python \<open>dict\<close> keeps its items in insertion order, one item per key. It is modelled by
  the list of its items. \<open>d[k] = v\<close> replaces the value of an existing key in place and
  appends a new key at the end, which is what \<open>AList.update\<close> does.
\<close>

type_synonym ('k, 'v) dict = "('k \<times> 'v) list"

definition dict_contains :: "('k, 'v) dict \<Rightarrow> 'k \<Rightarrow> bool" where
  "dict_contains d k = (map_of d k \<noteq> None)"

definition dict_getitem :: "('k, 'v) dict \<Rightarrow> 'k \<Rightarrow> py_error + 'v" where
  "dict_getitem d k = (case map_of d k of None \<Rightarrow> Inl KeyError | Some v \<Rightarrow> Inr v)"

definition dict_get :: "('k, 'v) dict \<Rightarrow> 'k \<Rightarrow> 'v \<Rightarrow> 'v" where
  "dict_get d k dflt = (case map_of d k of None \<Rightarrow> dflt | Some v \<Rightarrow> v)"

definition dict_items :: "('k, 'v) dict \<Rightarrow> ('k \<times> 'v) list" where
  "dict_items d = d"

text \<open>\<open>dict(pairs)\<close>: the pairs are inserted from left to right, so a later pair wins.\<close>

definition dict_of_pairs :: "('k \<times> 'v) list \<Rightarrow> ('k, 'v) dict" where
  "dict_of_pairs ps = foldl (\<lambda>d (k, v). AList.update k v d) [] ps"

subsection \<open>Strings\<close>

text \<open>
  A Python \<open>str\<close> is a sequence of Unicode code points; it is modelled by the list of
  its code points, which are natural numbers (below \<open>0x110000\<close> in Python). \<open>str_of\<close>
  gives the \<open>str\<close> of an ASCII literal.
\<close>

type_synonym str = "nat list"

definition str_of :: "string \<Rightarrow> str" where
  "str_of s = map of_char s"

text \<open>
  \<open>str.isspace\<close> holds of the code points \<open>U+0009\<close> to \<open>U+000D\<close>, \<open>U+001C\<close> to \<open>U+0020\<close>,
  \<open>U+0085\<close>, \<open>U+00A0\<close>, \<open>U+1680\<close>, \<open>U+2000\<close> to \<open>U+200A\<close>, \<open>U+2028\<close>, \<open>U+2029\<close>, \<open>U+202F\<close>,
  \<open>U+205F\<close> and \<open>U+3000\<close>.
\<close>

definition is_space :: "nat \<Rightarrow> bool" where
  "is_space n =
     ((9 \<le> n \<and> n \<le> 13) \<or> (28 \<le> n \<and> n \<le> 32) \<or> n = 133 \<or> n = 160 \<or> n = 5760 \<or>
      (8192 \<le> n \<and> n \<le> 8202) \<or> n = 8232 \<or> n = 8233 \<or> n = 8239 \<or> n = 8287 \<or> n = 12288)"

text \<open>
  Splitting at the runs of separator characters, without empty words: \<open>cur\<close> is the word
  read so far.
\<close>

fun split_from :: "('c \<Rightarrow> bool) \<Rightarrow> 'c list \<Rightarrow> 'c list \<Rightarrow> 'c list list" where
  "split_from sep cur [] = (if cur = [] then [] else [cur])"
| "split_from sep cur (c # cs) =
     (if sep c then (if cur = [] then split_from sep [] cs else cur # split_from sep [] cs)
      else split_from sep (cur @ [c]) cs)"

text \<open>
  \<open>str.split()\<close> without arguments splits at the runs of whitespace and returns no empty
  word.
\<close>

definition py_split :: "str \<Rightarrow> str list" where
  "py_split s = split_from is_space [] s"

subsection \<open>Two-dimensional integer arrays\<close>

text \<open>
  \<open>np.zeros((r, c), dtype=int)\<close> is an array of 64-bit integers. Storing at an index
  outside the shape raises IndexError; storing a Python integer outside the 64-bit range
  raises OverflowError. The notebook only uses non-negative indices.
\<close>

type_synonym int_array2 = "int list list"

definition np_zeros2 :: "nat \<Rightarrow> nat \<Rightarrow> int_array2" where
  "np_zeros2 r c = replicate r (replicate c 0)"

definition shape2 :: "int_array2 \<Rightarrow> nat \<times> nat" where
  "shape2 a = (length a, case a of [] \<Rightarrow> 0 | row # _ \<Rightarrow> length row)"

definition setitem2 :: "int_array2 \<Rightarrow> nat \<Rightarrow> nat \<Rightarrow> int \<Rightarrow> py_error + int_array2" where
  "setitem2 a i j v =
     (if \<not> (i < length a \<and> j < length (a ! i)) then Inl IndexError
      else if v < - (2 ^ 63) \<or> 2 ^ 63 \<le> v then Inl OverflowError
      else Inr (a[i := (a ! i)[j := v]]))"

section \<open>IMDB notebook: vocabulary and review encoding\<close>

text \<open>
  Notebook \<open>day1/04-tf2-imdb-rnn.ipynb\<close>. \<open>word_index = imdb.get_word_index()\<close> is the
  framework's dictionary from words to their frequency ranks, which are positive
  integers; it is a parameter of the model, of type \<open>(str, nat) dict\<close>.
\<close>

definition nb_words :: nat where
  "nb_words = 10000"

definition maxlen :: nat where
  "maxlen = 80"

text \<open>
  \<^verbatim>\<open>reverse_word_index = dict([(value, key) for (key, value) in word_index.items()])\<close>
\<close>

definition reverse_word_index :: "(str, nat) dict \<Rightarrow> (int, str) dict" where
  "reverse_word_index word_index =
     dict_of_pairs (map (\<lambda>(key, value). (int value, key)) (dict_items word_index))"

text \<open>
  \<^verbatim>\<open>reverse_word_index.get(i - 3, '?')\<close>, the decoding of one token \<open>i\<close> of a review.
\<close>

definition decode_token :: "(int, str) dict \<Rightarrow> int \<Rightarrow> str" where
  "decode_token rwi i = dict_get rwi (i - 3) (str_of ''?'')"

text \<open>
  The encoding cell:
  \<^verbatim>\<open>
  myreview = np.zeros((1,maxlen), dtype=int)
  myreview[0, 0] = 1
  for i, w in enumerate(myreviewtext.split()):
      if w in word_index and word_index[w]+3<nb_words:
          myreview[0, i+1] = word_index[w]+3
      else:
          print('word not in vocabulary:', w)
          myreview[0, i+1] = 2
  \<close>
  The state of the cell is the array and the words printed so far.
\<close>

record enc_state =
  myreview :: int_array2
  printed :: "str list"

text \<open>The condition of the \<open>if\<close>; \<open>and\<close> evaluates \<open>word_index[w]\<close> only for a known word.\<close>

definition in_vocabulary :: "(str, nat) dict \<Rightarrow> str \<Rightarrow> bool" where
  "in_vocabulary word_index w =
     (dict_contains word_index w \<and>
      (case dict_getitem word_index w of Inl _ \<Rightarrow> False | Inr n \<Rightarrow> n + 3 < nb_words))"

text \<open>The value the loop body stores for the word \<open>w\<close>.\<close>

definition encode_word :: "(str, nat) dict \<Rightarrow> str \<Rightarrow> py_error + int" where
  "encode_word word_index w =
     (if in_vocabulary word_index w
      then (case dict_getitem word_index w of Inl e \<Rightarrow> Inl e | Inr n \<Rightarrow> Inr (int n + 3))
      else Inr 2)"

definition encode_body :: "(str, nat) dict \<Rightarrow> nat \<times> str \<Rightarrow> enc_state \<Rightarrow> py_error + enc_state" where
  "encode_body word_index iw st =
     (case iw of (i, w) \<Rightarrow>
        (case encode_word word_index w of
           Inl e \<Rightarrow> Inl e
         | Inr v \<Rightarrow>
            (let out = (if in_vocabulary word_index w then printed st else printed st @ [w])
             in case setitem2 (myreview st) 0 (i + 1) v of
                  Inl e \<Rightarrow> Inl e
                | Inr a \<Rightarrow> Inr \<lparr>myreview = a, printed = out\<rparr>)))"

fun encode_loop :: "(str, nat) dict \<Rightarrow> (nat \<times> str) list \<Rightarrow> enc_state \<Rightarrow> py_error + enc_state" where
  "encode_loop word_index [] st = Inr st"
| "encode_loop word_index (iw # rest) st =
     (case encode_body word_index iw st of
        Inl e \<Rightarrow> Inl e
      | Inr st' \<Rightarrow> encode_loop word_index rest st')"

definition encode_review :: "(str, nat) dict \<Rightarrow> str \<Rightarrow> py_error + enc_state" where
  "encode_review word_index myreviewtext =
     (case setitem2 (np_zeros2 1 maxlen) 0 0 1 of
        Inl e \<Rightarrow> Inl e
      | Inr a \<Rightarrow>
          encode_loop word_index (enumerate 0 (py_split myreviewtext))
            \<lparr>myreview = a, printed = []\<rparr>)"

text \<open>
  The review of the notebook; for concrete runs, a small dictionary and a review whose
  last two words are separated by a no-break space (\<open>U+00A0\<close>).
\<close>

definition myreviewtext :: str where
  "myreviewtext =
     str_of ''this movie was the worst i have ever seen and the actors were horrible''"

definition sample_word_index :: "(str, nat) dict" where
  "sample_word_index = [(str_of ''the'', 1), (str_of ''and'', 2), (str_of ''movie'', 17),
     (str_of ''worst'', 246), (str_of ''zzyzx'', 88000)]"

definition sample_review :: str where
  "sample_review = str_of ''the zzyzx'' @ [160] @ str_of ''movie''"

section \<open>MNIST notebooks: pixel normalization and one-hot labels\<close>

text \<open>
  Notebooks \<open>day1/02-tf2-mnist-mlp.ipynb\<close>, \<open>day1/03-tf2-mnist-cnn.ipynb\<close> and the MNIST
  RNN notebook prepare the data in the same cell:
  \<^verbatim>\<open>
  (X_train, y_train), (X_test, y_test) = mnist.load_data()
  nb_classes = 10
  X_train = X_train.astype('float32')
  X_test = X_test.astype('float32')
  X_train /= 255.0
  X_test /= 255.0
  Y_train = to_categorical(y_train, nb_classes)
  Y_test = to_categorical(y_test, nb_classes)
  \<close>
  The loaded images are arrays of unsigned 8-bit pixels, the labels are integers.
\<close>

subsection \<open>Single-precision division\<close>


text \<open>The binary exponent of a positive number \<open>a\<close>: \<open>2 powi binade a \<le> a < 2 powi (binade a + 1)\<close>.\<close>

definition binade :: "real \<Rightarrow> int" where
  "binade a = (if 1 \<le> a then bitlen \<lfloor>a\<rfloor> - 1 else - bitlen (\<lceil>1 / a\<rceil> - 1))"





subsection \<open>One-hot encoding and argmax\<close>

text \<open>
  \<open>to_categorical\<close> (Keras) and \<open>np.argmax\<close> (NumPy) are functions of the framework, not
  of this repository; the notebooks only call them. They are modelled after the
  framework's implementation:
  \<^verbatim>\<open>
  def to_categorical(y, num_classes=None, dtype='float32'):
      y = np.array(y, dtype='int')
      ...
      n = y.shape[0]
      categorical = np.zeros((n, num_classes), dtype=dtype)
      categorical[np.arange(n), y] = 1
      ...
      return categorical
  \<close>
  for a one-dimensional label array \<open>y\<close> and a given \<open>num_classes\<close>. An index of a NumPy
  array may be negative and then counts from the end; an index outside the axis raises
  IndexError.
\<close>

definition nb_classes :: nat where
  "nb_classes = 10"

definition np_index :: "nat \<Rightarrow> int \<Rightarrow> py_error + nat" where
  "np_index n i =
     (if 0 \<le> i \<and> i < int n then Inr (nat i)
      else if - int n \<le> i \<and> i < 0 then Inr (nat (int n + i))
      else Inl IndexError)"

fun to_categorical :: "int list \<Rightarrow> nat \<Rightarrow> py_error + real list list" where
  "to_categorical [] num_classes = Inr []"
| "to_categorical (y # ys) num_classes =
     (case np_index num_classes y of
        Inl e \<Rightarrow> Inl e
      | Inr j \<Rightarrow>
         (case to_categorical ys num_classes of
            Inl e \<Rightarrow> Inl e
          | Inr rows \<Rightarrow> Inr ((replicate num_classes 0)[j := 1] # rows)))"

text \<open>
  \<open>np.argmax\<close> of a row returns the first index of its maximum and raises ValueError on
  an empty row. The scan keeps the best index and value seen so far.
\<close>

fun argmax_scan :: "real list \<Rightarrow> nat \<Rightarrow> nat \<Rightarrow> real \<Rightarrow> nat" where
  "argmax_scan [] i best bv = best"
| "argmax_scan (x # xs) i best bv =
     (if bv < x then argmax_scan xs (Suc i) i x else argmax_scan xs (Suc i) best bv)"

definition np_argmax :: "real list \<Rightarrow> py_error + nat" where
  "np_argmax xs = (case xs of [] \<Rightarrow> Inl ValueError | x # rest \<Rightarrow> Inr (argmax_scan rest 1 0 x))"

section \<open>Batch-job scripts\<close>

text \<open>
  A batch-job script is a text that the workload manager reads for its \<open>#SBATCH\<close>
  directives and that a shell then runs line by line. A script is modelled as the list
  of its lines, written down as they stand in the source; the shell and the reading of
  the directives are functions on such lists.
\<close>

type_synonym script = "string list"

text \<open>\<^verbatim>\<open>src/slurm/run-hvd.sh\<close>\<close>

definition slurm_run_hvd :: script where
  "slurm_run_hvd =
    [''#!/bin/bash'',
     ''#SBATCH --partition=gpu'',
     ''#SBATCH --gres=gpu:v100:2'',
     ''#SBATCH --time=1:00:00'',
     ''#SBATCH --mem=64G'',
     ''#SBATCH --ntasks=2'',
     ''#SBATCH --nodes=1'',
     ''#SBATCH --cpus-per-task=10'',
     ''#SBATCH --account=project_2004846'',
     ''#SBATCH --reservation=dlintro'',
     '''',
     ''module load tensorflow'',
     ''module list'',
     '''',
     ''export DATADIR=/scratch/project_2004846/data'',
     ''export KERAS_HOME=/scratch/project_2004846/keras-cache'',
     ''export TRANSFORMERS_CACHE=/scratch/project_2004846/transformers-cache'',
     '''',
     ''set -xv'',
     ''srun python3 $*'']"

text \<open>\<^verbatim>\<open>src/slurm/run-lscratch.sh\<close>\<close>

definition slurm_run_lscratch :: script where
  "slurm_run_lscratch =
    [''#!/bin/bash'',
     ''#SBATCH --partition=gpu'',
     ''#SBATCH --nodes=1'',
     ''#SBATCH --gres=gpu:v100:1,nvme:100'',
     ''#SBATCH --time=1:00:00'',
     ''#SBATCH --mem=64G'',
     ''#SBATCH --cpus-per-task=10'',
     ''#SBATCH --account=project_2005006'',
     ''#SBATCH --reservation dlintro'',
     '''',
     ''module load tensorflow/2.6'',
     ''module list'',
     '''',
     ''export DATADIR=$LOCAL_SCRATCH'',
     ''export KERAS_HOME=/scratch/project_2005006/keras-cache'',
     ''export TRANSFORMERS_CACHE=/scratch/project_2005006/transformers-cache'',
     '''',
     ''set -xv'',
     '''',
     ''tar xf /scratch/project_2005006/data/dogs-vs-cats.tar -C $LOCAL_SCRATCH'',
     '''',
     ''python3 $*'']"

text \<open>\<^verbatim>\<open>src/day2/run-lscratch.sh\<close>\<close>

definition day2_run_lscratch :: script where
  "day2_run_lscratch =
    [''#!/bin/bash'',
     ''#SBATCH --partition=gpu'',
     ''#SBATCH --nodes=1'',
     ''#SBATCH --gres=gpu:v100:1,nvme:100'',
     ''#SBATCH --time=1:00:00'',
     ''#SBATCH --mem=64G'',
     ''#SBATCH --cpus-per-task=10'',
     ''#SBATCH --account=project_2005299'',
     ''#SBATCH --reservation dlintro'',
     '''',
     ''module load tensorflow'',
     ''module list'',
     '''',
     ''export DATADIR=$LOCAL_SCRATCH'',
     ''export KERAS_HOME=/scratch/project_2005299/keras-cache'',
     ''export TRANSFORMERS_CACHE=/scratch/project_2005299/transformers-cache'',
     '''',
     ''set -xv'',
     '''',
     ''tar xf /scratch/project_2005299/data/dogs-vs-cats.tar -C $LOCAL_SCRATCH'',
     '''',
     ''python3 $*'']"

text \<open>\<^verbatim>\<open>src/unnamed/part_001\<close>\<close>

definition part_001_script :: script where
  "part_001_script =
    [''#!/bin/bash'',
     ''#SBATCH --partition=gpu'',
     ''#SBATCH --nodes=1'',
     ''#SBATCH --gres=gpu:v100:1'',
     ''#SBATCH --time=1:00:00'',
     ''#SBATCH --mem=64G'',
     ''#SBATCH --cpus-per-task=10'',
     ''#SBATCH --account=project_2005299'',
     '''',
     ''module load tensorflow'',
     ''module list'',
     '''',
     ''export DATADIR=/scratch/project_2005299/data'',
     ''export KERAS_HOME=/scratch/project_2005299/keras-cache'',
     ''export TRANSFORMERS_CACHE=/scratch/project_2005299/transformers-cache'',
     '''',
     ''set -xv'',
     ''python3 $*'']"

text \<open>\<^verbatim>\<open>src/unnamed/part_002\<close>\<close>

definition part_002_script :: script where
  "part_002_script =
    [''#!/bin/bash'',
     ''#SBATCH -A project_2001756 -c 10 -p gpu --gres=gpu:v100:1 -t 1:00:00 --mem=64G'',
     '''',
     ''module load tensorflow/2.0.0'',
     ''module list'',
     '''',
     ''set -xv'',
     ''srun python3.7 $*'']"

text \<open>\<^verbatim>\<open>src/unnamed/part_003\<close>\<close>

definition part_003_script :: script where
  "part_003_script =
    [''#!/bin/bash'',
     ''#SBATCH --partition=gpu'',
     ''#SBATCH --nodes=1'',
     ''#SBATCH --gres=gpu:v100:1'',
     ''#SBATCH --time=1:00:00'',
     ''#SBATCH --mem=64G'',
     ''#SBATCH --cpus-per-task=10'',
     ''#SBATCH --account=project_2004846'',
     ''#SBATCH --reservation=dlintro'',
     '''',
     ''module load tensorflow'',
     ''module list'',
     '''',
     ''export DATADIR=/scratch/project_2004846/data'',
     ''export KERAS_HOME=/scratch/project_2004846/keras-cache'',
     ''export TRANSFORMERS_CACHE=/scratch/project_2004846/transformers-cache'',
     '''',
     ''set -xv'',
     ''python3 $*'']"

text \<open>\<^verbatim>\<open>src/unnamed/part_000\<close> (the script after the notebook, lines 284 to 295)\<close>

definition part_000_script :: script where
  "part_000_script =
    [''#!/bin/bash'',
     ''#SBATCH -A project_2002238 -N 1 -n 2'',
     ''#SBATCH -c 20 -p gpu --gres=gpu:v100:2 -t 1:00:00 --mem=64G'',
     ''#SBATCH --reservation dlintro'',
     '''',
     ''module load tensorflow/2.0.0-hvd'',
     ''module list'',
     '''',
     ''export DATADIR=/scratch/project_2002238/data'',
     '''',
     ''set -xv'',
     ''srun python3.7 $*'']"

text \<open>The batch-job scripts of the repository.\<close>

definition batch_scripts :: "script list" where
  "batch_scripts = [slurm_run_hvd, slurm_run_lscratch, day2_run_lscratch, part_000_script,
     part_001_script, part_002_script, part_003_script]"

text \<open>
  The shell and the workload manager read a line as a list of words, separated by blanks
  (space, tab and newline, which are also the characters at which the shell splits the
  value of a variable into words). The scripts contain no quoting.
\<close>

definition is_blank :: "char \<Rightarrow> bool" where
  "is_blank c = (c = CHR '' '' \<or> c = CHR 0x09 \<or> c = CHR 0x0A)"

definition shell_words :: "string \<Rightarrow> string list" where
  "shell_words l = split_from is_blank [] l"

definition tokens :: "script \<Rightarrow> string list list" where
  "tokens s = map shell_words s"

subsection \<open>The shell\<close>

text \<open>
  What a run of a script changes: the environment, the loaded modules, the shell's
  tracing flags, and the files that \<open>tar\<close> extracts. \<open>exports\<close> lists the assignments the
  script itself exported, \<open>listed\<close> what \<open>module list\<close> printed. \<open>extracted\<close> lists the
  extractions that \<open>tar\<close> was run for, each with the archive, the target directory and
  the members named on the command line (none stands for the whole archive); whether
  the archive and the directory exist is a matter of the file system, which is not
  modelled. \<open>failed\<close> lists the commands that stop with a usage error and do nothing.
  \<open>launched\<close> lists the command lines that start the Python interpreter, each with what
  the interpreter finds: the environment, the loaded modules, the extractions done and
  whether tracing is on. How many processes \<open>srun\<close> starts from such a line is decided
  by the workload manager. A line with a shell control word is recorded in \<open>control\<close>,
  and a command whose effect the model does not determine in \<open>unknown\<close>; neither is
  run.
\<close>

record launch =
  argv :: "string list"
  launch_env :: "(string, string) dict"
  launch_modules :: "string list"
  launch_files :: "(string \<times> string \<times> string list) list"
  launch_traced :: bool

record shell_state =
  env :: "(string, string) dict"
  exports :: "(string \<times> string) list"
  modules :: "string list"
  listed :: "string list list"
  xtrace :: bool
  verbose :: bool
  extracted :: "(string \<times> string \<times> string list) list"
  failed :: "string list list"
  launched :: "launch list"
  control :: "string list list"
  unknown :: "string list list"

definition init_shell :: "(string, string) dict \<Rightarrow> shell_state" where
  "init_shell env0 = \<lparr>env = env0, exports = [], modules = [], listed = [], xtrace = False,
     verbose = False, extracted = [], failed = [], launched = [], control = [],
     unknown = []\<rparr>"

text \<open>
  Words that make the shell branch, loop or run a command depending on another one's
  exit status.
\<close>

definition control_words :: "string list" where
  "control_words = [''if'', ''then'', ''elif'', ''else'', ''fi'', ''for'', ''while'', ''until'',
     ''do'', ''done'', ''case'', ''esac'', ''&&'', ''||'', ''trap'']"

definition is_comment :: "string list \<Rightarrow> bool" where
  "is_comment ws = (case ws of [] \<Rightarrow> False | w # _ \<Rightarrow> take 1 w = ''#'')"

text \<open>
  Parameter expansion, for the two forms the scripts use: the word \<open>$*\<close> is replaced by
  the words of the script's arguments, a word \<open>$NAME\<close> by the words of the variable's
  value (none when the variable is unset or empty). In an assignment the value is not
  split into words.
\<close>

definition expand_value :: "(string, string) dict \<Rightarrow> string \<Rightarrow> string" where
  "expand_value e w = (if take 1 w = ''$'' then dict_get e (drop 1 w) [] else w)"

definition expand_word :: "(string, string) dict \<Rightarrow> string list \<Rightarrow> string \<Rightarrow> string list" where
  "expand_word e args w =
     (if w = ''$*'' then concat (map shell_words args)
      else if take 1 w = ''$'' then shell_words (expand_value e w)
      else [w])"

text \<open>
  After parameter expansion the shell replaces a word with a pattern character by the
  names of the files that match it, when there are any. Which files there are is not
  modelled: \<open>argv\<close> lists the words of a command line before this replacement.
\<close>

definition has_pattern :: "string \<Rightarrow> bool" where
  "has_pattern w = (\<exists>c \<in> set w. c \<in> set ''*?['')"

text \<open>\<open>NAME=VALUE\<close> is split at its first equals sign.\<close>

definition split_assignment :: "string \<Rightarrow> (string \<times> string) option" where
  "split_assignment w =
     (let name = takeWhile (\<lambda>c. c \<noteq> CHR ''='') w; rest = dropWhile (\<lambda>c. c \<noteq> CHR ''='') w
      in if name = [] \<or> rest = [] then None else Some (name, drop 1 rest))"

definition is_python :: "string \<Rightarrow> bool" where
  "is_python w = (take 6 w = ''python'')"

text \<open>
  \<open>tar xf ARCHIVE -C DIRECTORY MEMBER ...\<close>, given as the words of the command line:
  \<open>tar\<close> changes to the directory and extracts the named members of the archive, all
  of them when none is named. When no word follows \<open>-C\<close>, \<open>tar\<close> stops with a usage
  error and extracts nothing. When a word has a pattern character, what is extracted
  and where depends on the files that match.
\<close>

definition tar_step :: "string list \<Rightarrow> shell_state \<Rightarrow> shell_state" where
  "tar_step xs st =
     (if length xs = 4 then st\<lparr>failed := failed st @ [xs]\<rparr>
      else if \<exists>w \<in> set (drop 2 xs). has_pattern w then st\<lparr>unknown := unknown st @ [xs]\<rparr>
      else st\<lparr>extracted := extracted st @ [(xs ! 2, xs ! 4, drop 5 xs)]\<rparr>)"

text \<open>
  One line of a script, given as its words \<open>ws\<close>. The words of a command are expanded
  before the command is run.
\<close>

definition exec_line :: "string list \<Rightarrow> string list \<Rightarrow> shell_state \<Rightarrow> shell_state" where
  "exec_line args ws st =
     (if ws = [] \<or> is_comment ws then st
      else if \<exists>w \<in> set ws. w \<in> set control_words then st\<lparr>control := control st @ [ws]\<rparr>
      else if take 1 ws = [''export''] \<and> length ws = 2 then
        (case split_assignment (ws ! 1) of
           None \<Rightarrow> st\<lparr>unknown := unknown st @ [ws]\<rparr>
         | Some (name, v) \<Rightarrow>
             st\<lparr>env := AList.update name (expand_value (env st) v) (env st),
                exports := exports st @ [(name, expand_value (env st) v)]\<rparr>)
      else
        (let xs = concat (map (expand_word (env st) args) ws)
         in if xs = [] then st
            else if take 2 xs = [''module'', ''load''] then st\<lparr>modules := modules st @ drop 2 xs\<rparr>
            else if xs = [''module'', ''list''] then st\<lparr>listed := listed st @ [modules st]\<rparr>
            else if xs = [''set'', ''-xv''] then st\<lparr>xtrace := True, verbose := True\<rparr>
            else if take 2 xs = [''tar'', ''xf''] \<and> 4 \<le> length xs \<and> xs ! 3 = ''-C'' then
              tar_step xs st
            else if is_python (xs ! 0) \<or>
                    (xs ! 0 = ''srun'' \<and> 2 \<le> length xs \<and> is_python (xs ! 1)) then
              st\<lparr>launched := launched st @
                   [\<lparr>argv = xs, launch_env = env st, launch_modules = modules st,
                     launch_files = extracted st, launch_traced = xtrace st\<rparr>]\<rparr>
            else st\<lparr>unknown := unknown st @ [xs]\<rparr>))"

definition run_script :: "(string, string) dict \<Rightarrow> string list \<Rightarrow> script \<Rightarrow> shell_state" where
  "run_script env0 args s = foldl (\<lambda>st ws. exec_line args ws st) (init_shell env0) (tokens s)"

subsection \<open>The directives\<close>

text \<open>
  The workload manager reads the options of the \<open>#SBATCH\<close> lines: \<open>--name=value\<close>,
  \<open>--name value\<close>, or a one-letter option \<open>-x value\<close>. The one-letter options of the
  scripts are given their long names.
\<close>

definition long_option :: "string \<Rightarrow> string" where
  "long_option w =
     (if w = ''-A'' then ''account'' else if w = ''-c'' then ''cpus-per-task''
      else if w = ''-p'' then ''partition'' else if w = ''-t'' then ''time''
      else if w = ''-N'' then ''nodes'' else if w = ''-n'' then ''ntasks''
      else drop 1 w)"

fun parse_options :: "string list \<Rightarrow> (string \<times> string) list" where
  "parse_options [] = []"
| "parse_options [w] =
     (if take 2 w = ''--'' then
        (case split_assignment (drop 2 w) of None \<Rightarrow> [(drop 2 w, [])] | Some nv \<Rightarrow> [nv])
      else [])"
| "parse_options (w # v # ws) =
     (if take 2 w = ''--'' then
        (case split_assignment (drop 2 w) of
           None \<Rightarrow> (drop 2 w, v) # parse_options ws
         | Some nv \<Rightarrow> nv # parse_options (v # ws))
      else if take 1 w = ''-'' then (long_option w, v) # parse_options ws
      else parse_options (v # ws))"

definition sbatch_options :: "script \<Rightarrow> (string \<times> string) list" where
  "sbatch_options s =
     parse_options (concat (map (drop 1) (filter (\<lambda>ws. take 1 ws = [''#SBATCH'']) (tokens s))))"

text \<open>
  The four parameters in which the scripts are said to differ: the account, the
  reservation, the requested generic resources (the GPUs, and node-local disk for the
  scripts that use local scratch) and the data directory handed to the Python process.
\<close>

definition account :: "script \<Rightarrow> string option" where
  "account s = map_of (sbatch_options s) ''account''"

definition reservation :: "script \<Rightarrow> string option" where
  "reservation s = map_of (sbatch_options s) ''reservation''"

definition gres :: "script \<Rightarrow> string option" where
  "gres s = map_of (sbatch_options s) ''gres''"

text \<open>
  The rest of a script: the modules it loads, the names of the variables it exports and
  the words of the line that starts the interpreter. The directory of the account in an
  exported value belongs to the account parameter, so only the names are compared.
\<close>

definition commands :: "script \<Rightarrow> string list list" where
  "commands s = filter (\<lambda>ws. ws \<noteq> [] \<and> \<not> is_comment ws) (tokens s)"

definition interpreter_lines :: "script \<Rightarrow> string list list" where
  "interpreter_lines s =
     filter (\<lambda>ws. is_python (ws ! 0) \<or> (ws ! 0 = ''srun'' \<and> 2 \<le> length ws \<and> is_python (ws ! 1)))
       (commands s)"

definition remaining_content :: "script \<Rightarrow> string list \<times> string list \<times> string list list" where
  "remaining_content s =
     (let st = run_script [] [] s
      in (modules st, map fst (exports st), interpreter_lines s))"

text \<open>
  The command template of the scripts. Its parameters are the account, whether the data
  set is unpacked to node-local scratch, the version suffix of the module, the number of
  variables exported (of \<open>DATADIR\<close>, \<open>KERAS_HOME\<close>, \<open>TRANSFORMERS_CACHE\<close>, in this order),
  whether the interpreter is started through \<open>srun\<close>, and the interpreter's name.
\<close>

record job_params =
  job_account :: string
  local_scratch :: bool
  module_version :: string
  n_exports :: nat
  use_srun :: bool
  interpreter :: string

definition job_template :: "job_params \<Rightarrow> string list list" where
  "job_template p =
     [[''module'', ''load'', ''tensorflow'' @ module_version p], [''module'', ''list'']] @
     take (n_exports p)
       [[''export'', ''DATADIR='' @
           (if local_scratch p then ''$LOCAL_SCRATCH'' else ''/scratch/'' @ job_account p @ ''/data'')],
        [''export'', ''KERAS_HOME=/scratch/'' @ job_account p @ ''/keras-cache''],
        [''export'', ''TRANSFORMERS_CACHE=/scratch/'' @ job_account p @ ''/transformers-cache'']] @
     [[''set'', ''-xv'']] @
     (if local_scratch p
      then [[''tar'', ''xf'', ''/scratch/'' @ job_account p @ ''/data/dogs-vs-cats.tar'', ''-C'',
             ''$LOCAL_SCRATCH'']]
      else []) @
     [(if use_srun p then [''srun''] else []) @ [interpreter p, ''$*'']]"

section \<open>Properties of the review encoder and the vocabulary\<close>

lemma encode_word_eq:
  "encode_word wi w =
     Inr (case map_of wi w of Some n \<Rightarrow> if n + 3 < 10000 then int n + 3 else 2 | None \<Rightarrow> 2)"
  by (simp add: encode_word_def in_vocabulary_def dict_contains_def dict_getitem_def nb_words_def
      split: option.splits)

lemma encode_word_bounds:
  "encode_word wi w = Inr v \<Longrightarrow> 2 \<le> v \<and> v < 10000"
  by (auto simp: encode_word_eq split: option.splits if_splits)

text \<open>One pass of the loop body, on an array of shape (1, 80), writes one entry of row 0.\<close>

lemma encode_body_row:
  assumes "length (myreview st) = 1" and "length (myreview st ! 0) = 80" and "i < 79"
    and "encode_word wi w = Inr v"
  shows "\<exists>st'. encode_body wi (i, w) st = Inr st' \<and> length (myreview st') = 1 \<and>
           myreview st' ! 0 = (myreview st ! 0)[i + 1 := v]"
proof -
  from encode_word_bounds [OF assms(4)] have "\<not> (v < - (2 ^ 63) \<or> 2 ^ 63 \<le> v)" by simp
  with assms show ?thesis
    by (simp add: encode_body_def setitem2_def Let_def)
qed

text \<open>
  The loop invariant: started at index \<open>k\<close> with \<open>k + length ws \<le> 79\<close>, the loop does not
  raise, writes the entries \<open>k + 1\<close> to \<open>k + length ws\<close> and leaves every other entry.
\<close>

lemma encode_loop_rows:
  assumes "length (myreview st) = 1" and "length (myreview st ! 0) = 80"
    and "k + length ws \<le> 79"
  shows "\<exists>st'. encode_loop wi (enumerate k ws) st = Inr st' \<and> length (myreview st') = 1 \<and>
           length (myreview st' ! 0) = 80 \<and>
           (\<forall>j<80. myreview st' ! 0 ! j =
              (if k < j \<and> j \<le> k + length ws then projr (encode_word wi (ws ! (j - k - 1)))
               else myreview st ! 0 ! j))"
  using assms
proof (induction ws arbitrary: k st)
  case Nil
  then show ?case by simp
next
  case (Cons w ws)
  from Cons.prems have k: "k < 79" by simp
  have v: "encode_word wi w = Inr (projr (encode_word wi w))"
    by (simp add: encode_word_eq)
  from encode_body_row [OF Cons.prems(1,2) k v]
  obtain st1 where b: "encode_body wi (k, w) st = Inr st1"
    and l1: "length (myreview st1) = 1"
    and r1: "myreview st1 ! 0 = (myreview st ! 0)[k + 1 := projr (encode_word wi w)]"
    by blast
  from r1 Cons.prems have l2: "length (myreview st1 ! 0) = 80" by simp
  from Cons.prems have "Suc k + length ws \<le> 79" by simp
  from Cons.IH [OF l1 l2 this]
  obtain st' where run: "encode_loop wi (enumerate (Suc k) ws) st1 = Inr st'"
    and l3: "length (myreview st') = 1" and l4: "length (myreview st' ! 0) = 80"
    and rows: "\<forall>j<80. myreview st' ! 0 ! j =
              (if Suc k < j \<and> j \<le> Suc k + length ws
               then projr (encode_word wi (ws ! (j - Suc k - 1)))
               else myreview st1 ! 0 ! j)"
    by blast
  have "\<forall>j<80. myreview st' ! 0 ! j =
              (if k < j \<and> j \<le> k + length (w # ws)
               then projr (encode_word wi ((w # ws) ! (j - k - 1)))
               else myreview st ! 0 ! j)"
  proof (intro allI impI)
    fix j :: nat assume j: "j < 80"
    show "myreview st' ! 0 ! j =
              (if k < j \<and> j \<le> k + length (w # ws)
               then projr (encode_word wi ((w # ws) ! (j - k - 1)))
               else myreview st ! 0 ! j)"
    proof (cases "j = Suc k")
      case True
      with rows j r1 Cons.prems show ?thesis by simp
    next
      case False
      with rows j r1 Cons.prems show ?thesis
        by (auto simp: nth_Cons' Suc_diff_Suc)
    qed
  qed
  with b run l3 l4 show ?case by auto
qed

text \<open>
  Claim C9 (IMDB review encoder invariant). For every review text of at most 79
  whitespace-separated words (the words that \<open>str.split()\<close> returns, which splits at
  every Unicode whitespace character) the encoding cell does not raise and produces an integer
  array of shape (1, 80); entry 0 of its row is 1; for the i-th word \<open>w\<close>, entry
  \<open>i + 1\<close> is \<open>word_index[w] + 3\<close> when \<open>w\<close> is in \<open>word_index\<close> and \<open>word_index[w] + 3 < 10000\<close>,
  and 2 otherwise; the entries after the last word are 0; every entry is below
  \<open>nb_words = 10000\<close>.
\<close>

theorem encode_review_invariant:
  assumes "length (py_split text) \<le> 79"
  shows "\<exists>st. encode_review word_index text = Inr st \<and>
           shape2 (myreview st) = (1, 80) \<and>
           myreview st ! 0 ! 0 = 1 \<and>
           (\<forall>i < length (py_split text).
              myreview st ! 0 ! (i + 1) =
                (case map_of word_index (py_split text ! i) of
                   Some n \<Rightarrow> if n + 3 < 10000 then int n + 3 else 2
                 | None \<Rightarrow> 2)) \<and>
           (\<forall>j. length (py_split text) < j \<and> j < 80 \<longrightarrow> myreview st ! 0 ! j = 0) \<and>
           (\<forall>j < 80. myreview st ! 0 ! j < int nb_words)"
proof -
  let ?ws = "py_split text"
  let ?st0 = "\<lparr>myreview = [(replicate 80 0)[0 := 1]], printed = []\<rparr>"
  have start: "setitem2 (np_zeros2 1 maxlen) 0 0 1 = Inr [(replicate 80 0)[0 := 1]]"
    by (simp add: setitem2_def np_zeros2_def maxlen_def)
  have "length (myreview ?st0) = 1" and "length (myreview ?st0 ! 0) = 80" by simp_all
  from encode_loop_rows [OF this, of 0 ?ws word_index] assms
  obtain st where run: "encode_loop word_index (enumerate 0 ?ws) ?st0 = Inr st"
    and l1: "length (myreview st) = 1" and l2: "length (myreview st ! 0) = 80"
    and rows: "\<forall>j<80. myreview st ! 0 ! j =
              (if 0 < j \<and> j \<le> length ?ws then projr (encode_word word_index (?ws ! (j - 1)))
               else myreview ?st0 ! 0 ! j)"
    by auto
  have res: "encode_review word_index text = Inr st"
    unfolding encode_review_def start using run by simp
  have sh: "shape2 (myreview st) = (1, 80)"
    using l1 l2 by (cases "myreview st") (simp_all add: shape2_def)
  have first: "myreview st ! 0 ! 0 = 1"
    using rows by simp
  have words: "\<forall>i < length ?ws. myreview st ! 0 ! (i + 1) =
                (case map_of word_index (?ws ! i) of
                   Some n \<Rightarrow> if n + 3 < 10000 then int n + 3 else 2
                 | None \<Rightarrow> 2)"
    using rows assms by (simp add: encode_word_eq)
  have rest: "\<forall>j. length ?ws < j \<and> j < 80 \<longrightarrow> myreview st ! 0 ! j = 0"
    using rows by simp
  have bound: "\<forall>j < 80. myreview st ! 0 ! j < int nb_words"
  proof (intro allI impI)
    fix j :: nat assume j: "j < 80"
    have "projr (encode_word word_index w) < 10000" for w
      by (simp add: encode_word_eq split: option.splits)
    with rows j show "myreview st ! 0 ! j < int nb_words"
      by (cases "j = 0") (auto simp: nb_words_def)
  qed
  from res sh first words rest bound show ?thesis by blast
qed

text \<open>
  The theorem at the review \<open>sample_review\<close>: three words, the second one with a rank
  beyond the vocabulary size, the third one after a no-break space.
\<close>

theorem encode_review_invariant_witness:
  "length (py_split sample_review) \<le> 79 \<and>
   py_split sample_review = [str_of ''the'', str_of ''zzyzx'', str_of ''movie''] \<and>
   (\<exists>st. encode_review sample_word_index sample_review = Inr st \<and>
      shape2 (myreview st) = (1, 80) \<and>
      myreview st ! 0 ! 0 = 1 \<and> myreview st ! 0 ! 1 = 4 \<and> myreview st ! 0 ! 2 = 2 \<and>
      myreview st ! 0 ! 3 = 20 \<and> myreview st ! 0 ! 4 = 0)"
proof -
  have ws: "py_split sample_review = [str_of ''the'', str_of ''zzyzx'', str_of ''movie'']"
    by (simp add: sample_review_def py_split_def is_space_def str_of_def)
  have h: "length (py_split sample_review) \<le> 79"
    by (simp add: ws)
  from encode_review_invariant [OF h, of sample_word_index]
  obtain st where res: "encode_review sample_word_index sample_review = Inr st"
    and sh: "shape2 (myreview st) = (1, 80)"
    and e0: "myreview st ! 0 ! 0 = 1"
    and words: "\<forall>i < 3. myreview st ! 0 ! (i + 1) =
                (case map_of sample_word_index
                        ([str_of ''the'', str_of ''zzyzx'', str_of ''movie''] ! i) of
                   Some n \<Rightarrow> if n + 3 < 10000 then int n + 3 else 2
                 | None \<Rightarrow> 2)"
    and rest: "\<forall>j. 3 < j \<and> j < 80 \<longrightarrow> myreview st ! 0 ! j = 0"
    unfolding ws by auto
  from words [rule_format, of 0] have e1: "myreview st ! 0 ! 1 = 4"
    by (simp add: sample_word_index_def str_of_def)
  from words [rule_format, of 1] have e2: "myreview st ! 0 ! 2 = 2"
    by (simp add: sample_word_index_def str_of_def numeral_2_eq_2 [symmetric])
  from words [rule_format, of 2] have e3: "myreview st ! 0 ! 3 = 20"
    by (simp add: sample_word_index_def str_of_def)
  from rest have e4: "myreview st ! 0 ! 4 = 0" by simp
  from h ws res sh e0 e1 e2 e3 e4 show ?thesis by blast
qed

text \<open>\<open>dict(pairs)\<close> looks a key up in its last pair.\<close>

lemma map_of_foldl_update:
  "map_of (foldl (\<lambda>d (k, v). AList.update k v d) d ps) = map_of d ++ map_of (rev ps)"
proof (induction ps arbitrary: d)
  case Nil
  then show ?case by simp
next
  case (Cons p ps)
  obtain k v where p: "p = (k, v)" by (cases p)
  show ?case
    by (simp add: Cons.IH p update_conv' map_add_upd_left fun_eq_iff map_add_def
        split: option.splits)
qed

lemma map_of_dict_of_pairs:
  "map_of (dict_of_pairs ps) = map_of (rev ps)"
  by (simp add: dict_of_pairs_def map_of_foldl_update)

lemma reverse_word_index_lookup:
  assumes "distinct (map snd word_index)" and "map_of word_index w = Some n"
  shows "map_of (reverse_word_index word_index) (int n) = Some w"
proof -
  let ?ps = "map (\<lambda>(key, value). (int value, key)) word_index"
  have fst_ps: "map fst ?ps = map int (map snd word_index)"
    by (induction word_index) auto
  have "distinct (map fst ?ps)"
    unfolding fst_ps using assms(1) by (simp add: distinct_map inj_on_def)
  then have d: "distinct (map fst (rev ?ps))"
    by (simp add: rev_map [symmetric] del: rev_map)
  from assms(2) have "(w, n) \<in> set word_index" by (rule map_of_SomeD)
  then have "(int n, w) \<in> set (rev ?ps)" by force
  with d have "map_of (rev ?ps) (int n) = Some w" by (rule map_of_is_SomeI)
  then show ?thesis
    by (simp add: reverse_word_index_def dict_items_def map_of_dict_of_pairs)
qed

text \<open>
  Claim C10 (vocabulary round trip). \<open>reverse_word_index\<close> swaps the pairs of
  \<open>word_index\<close>. When \<open>word_index\<close> gives distinct words distinct indices (its values are
  pairwise distinct), every word \<open>w\<close> of \<open>word_index\<close> satisfies
  \<open>reverse_word_index[word_index[w]] = w\<close>, and when \<open>word_index[w] + 3 < 10000\<close> the
  token \<open>t = word_index[w] + 3\<close> that the encoder stores for \<open>w\<close> is decoded by
  \<open>reverse_word_index.get(t - 3, '?')\<close> to \<open>w\<close>.
\<close>

theorem vocabulary_round_trip:
  assumes "distinct (map snd word_index)" and "map_of word_index w = Some n"
  shows "dict_getitem (reverse_word_index word_index) (int n) = Inr w \<and>
         (n + 3 < nb_words \<longrightarrow>
            encode_word word_index w = Inr (int n + 3) \<and>
            decode_token (reverse_word_index word_index) (int n + 3) = w)"
  using reverse_word_index_lookup [OF assms] assms(2)
  by (simp add: dict_getitem_def decode_token_def dict_get_def encode_word_def
      in_vocabulary_def dict_contains_def)

theorem vocabulary_round_trip_witness:
  "distinct (map snd sample_word_index) \<and>
   map_of sample_word_index (str_of ''movie'') = Some 17 \<and> 17 + 3 < nb_words \<and>
   dict_getitem (reverse_word_index sample_word_index) 17 = Inr (str_of ''movie'') \<and>
   encode_word sample_word_index (str_of ''movie'') = Inr 20 \<and>
   decode_token (reverse_word_index sample_word_index) 20 = str_of ''movie''"
proof -
  have d: "distinct (map snd sample_word_index)"
    by (simp add: sample_word_index_def)
  have m: "map_of sample_word_index (str_of ''movie'') = Some 17"
    by (simp add: sample_word_index_def str_of_def)
  have b: "17 + 3 < nb_words"
    by (simp add: nb_words_def)
  from vocabulary_round_trip [OF d m] b d m show ?thesis by simp
qed

section \<open>Properties of the MNIST data preparation\<close>




lemma binade_bounds:
  assumes "0 < a"
  shows "2 powi binade a \<le> a \<and> a < 2 powi (binade a + 1)"
proof (cases "1 \<le> a")
  case True
  define n where "n = \<lfloor>a\<rfloor>"
  from True have n: "0 < n" by (simp add: n_def)
  from bitlen_bounds [OF n] have lo: "2 ^ nat (bitlen n - 1) \<le> n" and hi: "n < 2 ^ nat (bitlen n)"
    by simp_all
  from n have b: "1 \<le> bitlen n" using bitlen_eq_zero_iff [of n] bitlen_nonneg [of n] by linarith
  have "real_of_int (2 ^ nat (bitlen n - 1)) \<le> real_of_int n" using lo by linarith
  also have "\<dots> \<le> a" by (simp add: n_def)
  finally have 1: "2 powi (bitlen n - 1) \<le> a"
    using b by (simp add: power_int_def)
  have "a < real_of_int n + 1" by (simp add: n_def)
  also have "\<dots> \<le> real_of_int (2 ^ nat (bitlen n))" using hi by linarith
  finally have 2: "a < 2 powi (bitlen n)"
    using b by (simp add: power_int_def)
  from 1 2 True show ?thesis by (simp add: binade_def n_def)
next
  case False
  define y where "y = 1 / a"
  define m where "m = \<lceil>y\<rceil> - 1"
  from False assms have y: "1 < y" by (simp add: y_def)
  then have m: "0 < m" unfolding m_def by linarith
  from bitlen_bounds [OF m] have lo: "2 ^ nat (bitlen m - 1) \<le> m" and hi: "m < 2 ^ nat (bitlen m)"
    by simp_all
  from m have b: "1 \<le> bitlen m" using bitlen_eq_zero_iff [of m] bitlen_nonneg [of m] by linarith
  have "y \<le> real_of_int m + 1" unfolding m_def by simp
  also have "\<dots> \<le> real_of_int (2 ^ nat (bitlen m))" using hi by linarith
  finally have "y \<le> 2 ^ nat (bitlen m)" by simp
  then have "1 / 2 ^ nat (bitlen m) \<le> a"
    using assms by (simp add: y_def field_simps)
  then have 1: "2 powi (- bitlen m) \<le> a"
    using b by (simp add: power_int_def field_simps)
  have "real_of_int (2 ^ nat (bitlen m - 1)) \<le> real_of_int m" using lo by linarith
  also have "\<dots> < y" unfolding m_def by linarith
  finally have "2 ^ nat (bitlen m - 1) < y" by simp
  then have "a < 1 / 2 ^ nat (bitlen m - 1)"
    using assms by (simp add: y_def field_simps)
  moreover have "2 powi (- bitlen m + 1) = 1 / (2::real) ^ nat (bitlen m - 1)"
    using b by (simp add: power_int_def field_simps)
  ultimately have 2: "a < 2 powi (- bitlen m + 1)" by simp
  from 1 2 False show ?thesis by (simp add: binade_def m_def y_def)
qed












lemma argmax_scan_no_better:
  "\<forall>x \<in> set xs. x \<le> bv \<Longrightarrow> argmax_scan xs i best bv = best"
  by (induction xs arbitrary: i) auto

lemma argmax_scan_zeros_one:
  "argmax_scan (replicate k 0 @ 1 # replicate m 0) i best 0 = i + k"
proof (induction k arbitrary: i)
  case 0
  then show ?case by (simp add: argmax_scan_no_better)
next
  case (Suc k)
  then show ?case by simp
qed

lemma one_hot_as_append:
  assumes "j < n"
  shows "(replicate n (0::real))[j := 1] = replicate j 0 @ 1 # replicate (n - Suc j) 0"
  using assms by (simp add: upd_conv_take_nth_drop min_def)

lemma one_hot_argmax:
  assumes "j < n"
  shows "np_argmax ((replicate n 0)[j := 1]) = Inr j"
proof (cases j)
  case 0
  with assms show ?thesis
    by (simp add: one_hot_as_append np_argmax_def argmax_scan_no_better)
next
  case (Suc k)
  with assms have "(replicate n (0::real))[j := 1] = 0 # (replicate k 0 @ 1 # replicate (n - Suc j) 0)"
    by (simp add: one_hot_as_append)
  then show ?thesis
    using Suc by (simp add: np_argmax_def argmax_scan_zeros_one)
qed

lemma one_hot_sum:
  assumes "j < n"
  shows "sum_list ((replicate n (0::real))[j := 1]) = 1"
  using assms by (simp add: one_hot_as_append sum_list_replicate)

lemma to_categorical_rows:
  assumes "\<forall>y \<in> set ys. 0 \<le> y \<and> y < int n"
  shows "to_categorical ys n = Inr (map (\<lambda>y. (replicate n 0)[nat y := 1]) ys)"
  using assms by (induction ys) (auto simp: np_index_def)

text \<open>
  Claim C7 (one-hot encoding round trip). For labels \<open>y\<close> with \<open>0 \<le> y < 10\<close>,
  \<open>to_categorical(y, 10)\<close> does not raise; the row of a label has length 10, the value 1
  at index \<open>y\<close> and 0 at every other index, so the row sums to 1 and \<open>np.argmax\<close> of the
  row is \<open>y\<close>.
\<close>

theorem one_hot_round_trip:
  assumes "\<forall>y \<in> set ys. 0 \<le> y \<and> y < 10"
  shows "\<exists>Y. to_categorical ys nb_classes = Inr Y \<and> length Y = length ys \<and>
           (\<forall>i < length ys.
              length (Y ! i) = 10 \<and>
              (\<forall>j < 10. Y ! i ! j = (if int j = ys ! i then 1 else 0)) \<and>
              sum_list (Y ! i) = 1 \<and>
              np_argmax (Y ! i) = Inr (nat (ys ! i)))"
proof -
  let ?Y = "map (\<lambda>y. (replicate 10 (0::real))[nat y := 1]) ys"
  have res: "to_categorical ys nb_classes = Inr ?Y"
    using assms by (simp add: to_categorical_rows nb_classes_def)
  have rows: "length (?Y ! i) = 10 \<and>
              (\<forall>j < 10. ?Y ! i ! j = (if int j = ys ! i then 1 else 0)) \<and>
              sum_list (?Y ! i) = 1 \<and>
              np_argmax (?Y ! i) = Inr (nat (ys ! i))" if i: "i < length ys" for i
  proof -
    from assms i have y: "0 \<le> ys ! i" "nat (ys ! i) < 10" by (auto simp: all_set_conv_all_nth)
    have "\<forall>j < 10. (replicate 10 (0::real))[nat (ys ! i) := 1] ! j = (if int j = ys ! i then 1 else 0)"
      using y by (auto simp: nth_list_update)
    with i y show ?thesis
      by (simp add: one_hot_sum one_hot_argmax)
  qed
  from res rows show ?thesis by (intro exI [of _ ?Y]) simp
qed

theorem one_hot_round_trip_witness:
  "list_all (\<lambda>y. 0 \<le> y \<and> y < (10::int)) [5, 0, 9] \<and>
   to_categorical [5, 0, 9] nb_classes =
     Inr [[0, 0, 0, 0, 0, 1, 0, 0, 0, 0], [1, 0, 0, 0, 0, 0, 0, 0, 0, 0],
          [0, 0, 0, 0, 0, 0, 0, 0, 0, 1]] \<and>
   np_argmax [0, 0, 0, 0, 0, 1, 0, 0, 0, 0] = Inr 5 \<and>
   sum_list [0, 0, 0, 0, 0, 1, 0, 0, 0, 0 :: real] = 1"
proof -
  have h: "\<forall>y \<in> set [5, 0, 9]. 0 \<le> y \<and> y < (10::int)" by simp
  have v: "to_categorical [5, 0, 9] nb_classes =
     Inr [[0, 0, 0, 0, 0, 1, 0, 0, 0, 0], [1, 0, 0, 0, 0, 0, 0, 0, 0, 0],
          [0, 0, 0, 0, 0, 0, 0, 0, 0, 1]]"
    by code_simp
  from one_hot_round_trip [OF h] v
  have "sum_list [0, 0, 0, 0, 0, 1, 0, 0, 0, 0 :: real] = 1 \<and>
        np_argmax [0, 0, 0, 0, 0, 1, 0, 0, 0, 0] = Inr (nat 5)"
    by (auto dest: spec [of _ 0])
  with h v show ?thesis by simp
qed


section \<open>Properties of the batch-job scripts\<close>

text \<open>The words of each script.\<close>

lemma tokens_slurm_run_hvd:
  "tokens slurm_run_hvd =
    [[''#!/bin/bash''],
     [''#SBATCH'', ''--partition=gpu''],
     [''#SBATCH'', ''--gres=gpu:v100:2''],
     [''#SBATCH'', ''--time=1:00:00''],
     [''#SBATCH'', ''--mem=64G''],
     [''#SBATCH'', ''--ntasks=2''],
     [''#SBATCH'', ''--nodes=1''],
     [''#SBATCH'', ''--cpus-per-task=10''],
     [''#SBATCH'', ''--account=project_2004846''],
     [''#SBATCH'', ''--reservation=dlintro''],
     [],
     [''module'', ''load'', ''tensorflow''],
     [''module'', ''list''],
     [],
     [''export'', ''DATADIR=/scratch/project_2004846/data''],
     [''export'', ''KERAS_HOME=/scratch/project_2004846/keras-cache''],
     [''export'', ''TRANSFORMERS_CACHE=/scratch/project_2004846/transformers-cache''],
     [],
     [''set'', ''-xv''],
     [''srun'', ''python3'', ''$*'']]"
  by (simp add: tokens_def slurm_run_hvd_def shell_words_def is_blank_def)

lemma tokens_slurm_run_lscratch:
  "tokens slurm_run_lscratch =
    [[''#!/bin/bash''],
     [''#SBATCH'', ''--partition=gpu''],
     [''#SBATCH'', ''--nodes=1''],
     [''#SBATCH'', ''--gres=gpu:v100:1,nvme:100''],
     [''#SBATCH'', ''--time=1:00:00''],
     [''#SBATCH'', ''--mem=64G''],
     [''#SBATCH'', ''--cpus-per-task=10''],
     [''#SBATCH'', ''--account=project_2005006''],
     [''#SBATCH'', ''--reservation'', ''dlintro''],
     [],
     [''module'', ''load'', ''tensorflow/2.6''],
     [''module'', ''list''],
     [],
     [''export'', ''DATADIR=$LOCAL_SCRATCH''],
     [''export'', ''KERAS_HOME=/scratch/project_2005006/keras-cache''],
     [''export'', ''TRANSFORMERS_CACHE=/scratch/project_2005006/transformers-cache''],
     [],
     [''set'', ''-xv''],
     [],
     [''tar'', ''xf'', ''/scratch/project_2005006/data/dogs-vs-cats.tar'', ''-C'', ''$LOCAL_SCRATCH''],
     [],
     [''python3'', ''$*'']]"
  by (simp add: tokens_def slurm_run_lscratch_def shell_words_def is_blank_def)

lemma tokens_day2_run_lscratch:
  "tokens day2_run_lscratch =
    [[''#!/bin/bash''],
     [''#SBATCH'', ''--partition=gpu''],
     [''#SBATCH'', ''--nodes=1''],
     [''#SBATCH'', ''--gres=gpu:v100:1,nvme:100''],
     [''#SBATCH'', ''--time=1:00:00''],
     [''#SBATCH'', ''--mem=64G''],
     [''#SBATCH'', ''--cpus-per-task=10''],
     [''#SBATCH'', ''--account=project_2005299''],
     [''#SBATCH'', ''--reservation'', ''dlintro''],
     [],
     [''module'', ''load'', ''tensorflow''],
     [''module'', ''list''],
     [],
     [''export'', ''DATADIR=$LOCAL_SCRATCH''],
     [''export'', ''KERAS_HOME=/scratch/project_2005299/keras-cache''],
     [''export'', ''TRANSFORMERS_CACHE=/scratch/project_2005299/transformers-cache''],
     [],
     [''set'', ''-xv''],
     [],
     [''tar'', ''xf'', ''/scratch/project_2005299/data/dogs-vs-cats.tar'', ''-C'', ''$LOCAL_SCRATCH''],
     [],
     [''python3'', ''$*'']]"
  by (simp add: tokens_def day2_run_lscratch_def shell_words_def is_blank_def)

lemma tokens_part_001_script:
  "tokens part_001_script =
    [[''#!/bin/bash''],
     [''#SBATCH'', ''--partition=gpu''],
     [''#SBATCH'', ''--nodes=1''],
     [''#SBATCH'', ''--gres=gpu:v100:1''],
     [''#SBATCH'', ''--time=1:00:00''],
     [''#SBATCH'', ''--mem=64G''],
     [''#SBATCH'', ''--cpus-per-task=10''],
     [''#SBATCH'', ''--account=project_2005299''],
     [],
     [''module'', ''load'', ''tensorflow''],
     [''module'', ''list''],
     [],
     [''export'', ''DATADIR=/scratch/project_2005299/data''],
     [''export'', ''KERAS_HOME=/scratch/project_2005299/keras-cache''],
     [''export'', ''TRANSFORMERS_CACHE=/scratch/project_2005299/transformers-cache''],
     [],
     [''set'', ''-xv''],
     [''python3'', ''$*'']]"
  by (simp add: tokens_def part_001_script_def shell_words_def is_blank_def)

lemma tokens_part_002_script:
  "tokens part_002_script =
    [[''#!/bin/bash''],
     [''#SBATCH'', ''-A'', ''project_2001756'', ''-c'', ''10'', ''-p'', ''gpu'', ''--gres=gpu:v100:1'', ''-t'', ''1:00:00'', ''--mem=64G''],
     [],
     [''module'', ''load'', ''tensorflow/2.0.0''],
     [''module'', ''list''],
     [],
     [''set'', ''-xv''],
     [''srun'', ''python3.7'', ''$*'']]"
  by (simp add: tokens_def part_002_script_def shell_words_def is_blank_def)

lemma tokens_part_003_script:
  "tokens part_003_script =
    [[''#!/bin/bash''],
     [''#SBATCH'', ''--partition=gpu''],
     [''#SBATCH'', ''--nodes=1''],
     [''#SBATCH'', ''--gres=gpu:v100:1''],
     [''#SBATCH'', ''--time=1:00:00''],
     [''#SBATCH'', ''--mem=64G''],
     [''#SBATCH'', ''--cpus-per-task=10''],
     [''#SBATCH'', ''--account=project_2004846''],
     [''#SBATCH'', ''--reservation=dlintro''],
     [],
     [''module'', ''load'', ''tensorflow''],
     [''module'', ''list''],
     [],
     [''export'', ''DATADIR=/scratch/project_2004846/data''],
     [''export'', ''KERAS_HOME=/scratch/project_2004846/keras-cache''],
     [''export'', ''TRANSFORMERS_CACHE=/scratch/project_2004846/transformers-cache''],
     [],
     [''set'', ''-xv''],
     [''python3'', ''$*'']]"
  by (simp add: tokens_def part_003_script_def shell_words_def is_blank_def)

lemma tokens_part_000_script:
  "tokens part_000_script =
    [[''#!/bin/bash''],
     [''#SBATCH'', ''-A'', ''project_2002238'', ''-N'', ''1'', ''-n'', ''2''],
     [''#SBATCH'', ''-c'', ''20'', ''-p'', ''gpu'', ''--gres=gpu:v100:2'', ''-t'', ''1:00:00'', ''--mem=64G''],
     [''#SBATCH'', ''--reservation'', ''dlintro''],
     [],
     [''module'', ''load'', ''tensorflow/2.0.0-hvd''],
     [''module'', ''list''],
     [],
     [''export'', ''DATADIR=/scratch/project_2002238/data''],
     [],
     [''set'', ''-xv''],
     [''srun'', ''python3.7'', ''$*'']]"
  by (simp add: tokens_def part_000_script_def shell_words_def is_blank_def)

lemmas tokens_scripts = tokens_slurm_run_hvd tokens_slurm_run_lscratch tokens_day2_run_lscratch tokens_part_000_script tokens_part_001_script tokens_part_002_script tokens_part_003_script

text \<open>\<open>tar\<close> changes nothing but the extractions and the commands that failed or are unknown.\<close>

lemma tar_step_frame [simp]:
  "env (tar_step xs st) = env st"
  "exports (tar_step xs st) = exports st"
  "modules (tar_step xs st) = modules st"
  "listed (tar_step xs st) = listed st"
  "xtrace (tar_step xs st) = xtrace st"
  "verbose (tar_step xs st) = verbose st"
  "launched (tar_step xs st) = launched st"
  "control (tar_step xs st) = control st"
  by (simp_all add: tar_step_def)

text \<open>
  The run of each script, from any initial environment \<open>env0\<close> and with any arguments.
\<close>

lemma run_slurm_run_hvd:
  "run_script env0 args slurm_run_hvd =
     \<lparr>env = AList.update ''TRANSFORMERS_CACHE'' ''/scratch/project_2004846/transformers-cache'' (AList.update ''KERAS_HOME'' ''/scratch/project_2004846/keras-cache'' (AList.update ''DATADIR'' ''/scratch/project_2004846/data'' (env0))),
      exports = [(''DATADIR'', ''/scratch/project_2004846/data''), (''KERAS_HOME'', ''/scratch/project_2004846/keras-cache''), (''TRANSFORMERS_CACHE'', ''/scratch/project_2004846/transformers-cache'')],
      modules = [''tensorflow''], listed = [[''tensorflow'']], xtrace = True, verbose = True,
      extracted = [], failed = [],
      launched = [\<lparr>argv = ''srun'' # ''python3'' # concat (map shell_words args),
                   launch_env = AList.update ''TRANSFORMERS_CACHE'' ''/scratch/project_2004846/transformers-cache'' (AList.update ''KERAS_HOME'' ''/scratch/project_2004846/keras-cache'' (AList.update ''DATADIR'' ''/scratch/project_2004846/data'' (env0))),
                   launch_modules = [''tensorflow''], launch_files = [], launch_traced = True\<rparr>],
      control = [], unknown = []\<rparr>"
  by (simp add: run_script_def tokens_slurm_run_hvd init_shell_def exec_line_def
      is_comment_def control_words_def split_assignment_def expand_value_def expand_word_def
      is_python_def dict_get_def update_conv' Let_def)

lemma run_slurm_run_lscratch:
  "run_script env0 args slurm_run_lscratch =
     (let st = tar_step
                 ([''tar'', ''xf'', ''/scratch/project_2005006/data/dogs-vs-cats.tar'', ''-C''] @
                  shell_words (dict_get env0 ''LOCAL_SCRATCH'' []))
                 \<lparr>env = AList.update ''TRANSFORMERS_CACHE'' ''/scratch/project_2005006/transformers-cache'' (AList.update ''KERAS_HOME'' ''/scratch/project_2005006/keras-cache'' (AList.update ''DATADIR'' (dict_get env0 ''LOCAL_SCRATCH'' []) (env0))),
                  exports = [(''DATADIR'', dict_get env0 ''LOCAL_SCRATCH'' []), (''KERAS_HOME'', ''/scratch/project_2005006/keras-cache''), (''TRANSFORMERS_CACHE'', ''/scratch/project_2005006/transformers-cache'')],
                  modules = [''tensorflow/2.6''], listed = [[''tensorflow/2.6'']], xtrace = True, verbose = True,
                  extracted = [], failed = [], launched = [], control = [], unknown = []\<rparr>
      in st\<lparr>launched :=
              [\<lparr>argv = ''python3'' # concat (map shell_words args),
                launch_env = AList.update ''TRANSFORMERS_CACHE'' ''/scratch/project_2005006/transformers-cache'' (AList.update ''KERAS_HOME'' ''/scratch/project_2005006/keras-cache'' (AList.update ''DATADIR'' (dict_get env0 ''LOCAL_SCRATCH'' []) (env0))),
                launch_modules = [''tensorflow/2.6''], launch_files = extracted st, launch_traced = True\<rparr>]\<rparr>)"
  by (simp add: run_script_def tokens_slurm_run_lscratch init_shell_def exec_line_def
      is_comment_def control_words_def split_assignment_def expand_value_def expand_word_def
      is_python_def dict_get_def update_conv' Let_def)

lemma run_day2_run_lscratch:
  "run_script env0 args day2_run_lscratch =
     (let st = tar_step
                 ([''tar'', ''xf'', ''/scratch/project_2005299/data/dogs-vs-cats.tar'', ''-C''] @
                  shell_words (dict_get env0 ''LOCAL_SCRATCH'' []))
                 \<lparr>env = AList.update ''TRANSFORMERS_CACHE'' ''/scratch/project_2005299/transformers-cache'' (AList.update ''KERAS_HOME'' ''/scratch/project_2005299/keras-cache'' (AList.update ''DATADIR'' (dict_get env0 ''LOCAL_SCRATCH'' []) (env0))),
                  exports = [(''DATADIR'', dict_get env0 ''LOCAL_SCRATCH'' []), (''KERAS_HOME'', ''/scratch/project_2005299/keras-cache''), (''TRANSFORMERS_CACHE'', ''/scratch/project_2005299/transformers-cache'')],
                  modules = [''tensorflow''], listed = [[''tensorflow'']], xtrace = True, verbose = True,
                  extracted = [], failed = [], launched = [], control = [], unknown = []\<rparr>
      in st\<lparr>launched :=
              [\<lparr>argv = ''python3'' # concat (map shell_words args),
                launch_env = AList.update ''TRANSFORMERS_CACHE'' ''/scratch/project_2005299/transformers-cache'' (AList.update ''KERAS_HOME'' ''/scratch/project_2005299/keras-cache'' (AList.update ''DATADIR'' (dict_get env0 ''LOCAL_SCRATCH'' []) (env0))),
                launch_modules = [''tensorflow''], launch_files = extracted st, launch_traced = True\<rparr>]\<rparr>)"
  by (simp add: run_script_def tokens_day2_run_lscratch init_shell_def exec_line_def
      is_comment_def control_words_def split_assignment_def expand_value_def expand_word_def
      is_python_def dict_get_def update_conv' Let_def)

lemma run_part_000_script:
  "run_script env0 args part_000_script =
     \<lparr>env = AList.update ''DATADIR'' ''/scratch/project_2002238/data'' (env0),
      exports = [(''DATADIR'', ''/scratch/project_2002238/data'')],
      modules = [''tensorflow/2.0.0-hvd''], listed = [[''tensorflow/2.0.0-hvd'']], xtrace = True, verbose = True,
      extracted = [], failed = [],
      launched = [\<lparr>argv = ''srun'' # ''python3.7'' # concat (map shell_words args),
                   launch_env = AList.update ''DATADIR'' ''/scratch/project_2002238/data'' (env0),
                   launch_modules = [''tensorflow/2.0.0-hvd''], launch_files = [], launch_traced = True\<rparr>],
      control = [], unknown = []\<rparr>"
  by (simp add: run_script_def tokens_part_000_script init_shell_def exec_line_def
      is_comment_def control_words_def split_assignment_def expand_value_def expand_word_def
      is_python_def dict_get_def update_conv' Let_def)

lemma run_part_001_script:
  "run_script env0 args part_001_script =
     \<lparr>env = AList.update ''TRANSFORMERS_CACHE'' ''/scratch/project_2005299/transformers-cache'' (AList.update ''KERAS_HOME'' ''/scratch/project_2005299/keras-cache'' (AList.update ''DATADIR'' ''/scratch/project_2005299/data'' (env0))),
      exports = [(''DATADIR'', ''/scratch/project_2005299/data''), (''KERAS_HOME'', ''/scratch/project_2005299/keras-cache''), (''TRANSFORMERS_CACHE'', ''/scratch/project_2005299/transformers-cache'')],
      modules = [''tensorflow''], listed = [[''tensorflow'']], xtrace = True, verbose = True,
      extracted = [], failed = [],
      launched = [\<lparr>argv = ''python3'' # concat (map shell_words args),
                   launch_env = AList.update ''TRANSFORMERS_CACHE'' ''/scratch/project_2005299/transformers-cache'' (AList.update ''KERAS_HOME'' ''/scratch/project_2005299/keras-cache'' (AList.update ''DATADIR'' ''/scratch/project_2005299/data'' (env0))),
                   launch_modules = [''tensorflow''], launch_files = [], launch_traced = True\<rparr>],
      control = [], unknown = []\<rparr>"
  by (simp add: run_script_def tokens_part_001_script init_shell_def exec_line_def
      is_comment_def control_words_def split_assignment_def expand_value_def expand_word_def
      is_python_def dict_get_def update_conv' Let_def)

lemma run_part_002_script:
  "run_script env0 args part_002_script =
     \<lparr>env = env0,
      exports = [],
      modules = [''tensorflow/2.0.0''], listed = [[''tensorflow/2.0.0'']], xtrace = True, verbose = True,
      extracted = [], failed = [],
      launched = [\<lparr>argv = ''srun'' # ''python3.7'' # concat (map shell_words args),
                   launch_env = env0,
                   launch_modules = [''tensorflow/2.0.0''], launch_files = [], launch_traced = True\<rparr>],
      control = [], unknown = []\<rparr>"
  by (simp add: run_script_def tokens_part_002_script init_shell_def exec_line_def
      is_comment_def control_words_def split_assignment_def expand_value_def expand_word_def
      is_python_def dict_get_def update_conv' Let_def)

lemma run_part_003_script:
  "run_script env0 args part_003_script =
     \<lparr>env = AList.update ''TRANSFORMERS_CACHE'' ''/scratch/project_2004846/transformers-cache'' (AList.update ''KERAS_HOME'' ''/scratch/project_2004846/keras-cache'' (AList.update ''DATADIR'' ''/scratch/project_2004846/data'' (env0))),
      exports = [(''DATADIR'', ''/scratch/project_2004846/data''), (''KERAS_HOME'', ''/scratch/project_2004846/keras-cache''), (''TRANSFORMERS_CACHE'', ''/scratch/project_2004846/transformers-cache'')],
      modules = [''tensorflow''], listed = [[''tensorflow'']], xtrace = True, verbose = True,
      extracted = [], failed = [],
      launched = [\<lparr>argv = ''python3'' # concat (map shell_words args),
                   launch_env = AList.update ''TRANSFORMERS_CACHE'' ''/scratch/project_2004846/transformers-cache'' (AList.update ''KERAS_HOME'' ''/scratch/project_2004846/keras-cache'' (AList.update ''DATADIR'' ''/scratch/project_2004846/data'' (env0))),
                   launch_modules = [''tensorflow''], launch_files = [], launch_traced = True\<rparr>],
      control = [], unknown = []\<rparr>"
  by (simp add: run_script_def tokens_part_003_script init_shell_def exec_line_def
      is_comment_def control_words_def split_assignment_def expand_value_def expand_word_def
      is_python_def dict_get_def update_conv' Let_def)


lemmas run_scripts = run_slurm_run_hvd run_slurm_run_lscratch run_day2_run_lscratch
  run_part_000_script run_part_001_script run_part_002_script run_part_003_script




text \<open>
  Claim C4, as stated, fails: \<open>slurm/run-lscratch.sh\<close> and \<open>day2/run-lscratch.sh\<close> have the
  same reservation, the same generic resources and the same handling of the scratch
  directory and differ in the account, yet they load different modules.
\<close>

theorem scripts_one_template_counterexample:
  "reservation slurm_run_lscratch = reservation day2_run_lscratch \<and>
   gres slurm_run_lscratch = gres day2_run_lscratch \<and>
   map_of (exports (run_script [] [] slurm_run_lscratch)) ''DATADIR'' =
     map_of (exports (run_script [] [] day2_run_lscratch)) ''DATADIR'' \<and>
   account slurm_run_lscratch = Some ''project_2005006'' \<and>
   account day2_run_lscratch = Some ''project_2005299'' \<and>
   remaining_content slurm_run_lscratch =
     ([''tensorflow/2.6''], [''DATADIR'', ''KERAS_HOME'', ''TRANSFORMERS_CACHE''],
      [[''python3'', ''$*'']]) \<and>
   remaining_content day2_run_lscratch =
     ([''tensorflow''], [''DATADIR'', ''KERAS_HOME'', ''TRANSFORMERS_CACHE''],
      [[''python3'', ''$*'']])"
  by (simp add: reservation_def gres_def account_def sbatch_options_def tokens_scripts
      remaining_content_def run_scripts Let_def interpreter_lines_def commands_def is_comment_def
      is_python_def split_assignment_def long_option_def)

text \<open>
  Claim C4, amended. The commands of every script are an instance of one template: load
  a \<open>tensorflow\<close> module, list the modules, export the first \<open>n\<close> of \<open>DATADIR\<close>, \<open>KERAS_HOME\<close>
  and \<open>TRANSFORMERS_CACHE\<close>, switch on tracing, unpack the data set when node-local scratch
  is used, start the interpreter on the arguments. The scripts differ in the account
  (which is the account of the directives), in the handling of the scratch directory,
  and also in the version of the module, in the number of exported variables, in the
  name of the interpreter and in whether it is started through \<open>srun\<close>; reservation and
  GPU count differ in the directives.
\<close>

theorem scripts_one_template:
  "map commands batch_scripts =
     map job_template
       [\<lparr>job_account = ''project_2004846'', local_scratch = False, module_version = [],
          n_exports = 3, use_srun = True, interpreter = ''python3''\<rparr>,
        \<lparr>job_account = ''project_2005006'', local_scratch = True, module_version = ''/2.6'',
          n_exports = 3, use_srun = False, interpreter = ''python3''\<rparr>,
        \<lparr>job_account = ''project_2005299'', local_scratch = True, module_version = [],
          n_exports = 3, use_srun = False, interpreter = ''python3''\<rparr>,
        \<lparr>job_account = ''project_2002238'', local_scratch = False,
          module_version = ''/2.0.0-hvd'', n_exports = 1, use_srun = True,
          interpreter = ''python3.7''\<rparr>,
        \<lparr>job_account = ''project_2005299'', local_scratch = False, module_version = [],
          n_exports = 3, use_srun = False, interpreter = ''python3''\<rparr>,
        \<lparr>job_account = ''project_2001756'', local_scratch = False, module_version = ''/2.0.0'',
          n_exports = 0, use_srun = True, interpreter = ''python3.7''\<rparr>,
        \<lparr>job_account = ''project_2004846'', local_scratch = False, module_version = [],
          n_exports = 3, use_srun = False, interpreter = ''python3''\<rparr>] \<and>
   map account batch_scripts =
     map Some [''project_2004846'', ''project_2005006'', ''project_2005299'', ''project_2002238'',
       ''project_2005299'', ''project_2001756'', ''project_2004846''] \<and>
   map reservation batch_scripts =
     [Some ''dlintro'', Some ''dlintro'', Some ''dlintro'', Some ''dlintro'', None, None,
      Some ''dlintro''] \<and>
   map gres batch_scripts =
     map Some [''gpu:v100:2'', ''gpu:v100:1,nvme:100'', ''gpu:v100:1,nvme:100'', ''gpu:v100:2'',
       ''gpu:v100:1'', ''gpu:v100:1'', ''gpu:v100:1'']"
  by (simp add: batch_scripts_def reservation_def gres_def account_def sbatch_options_def
      tokens_scripts commands_def is_comment_def job_template_def split_assignment_def
      long_option_def)

text \<open>
  Claim C5, as stated, fails: the script of \<open>src/unnamed/part_002\<close> exports nothing, and
  the process it starts gets the environment the script was started with (here the
  empty one).
\<close>

theorem scripts_export_directories_counterexample:
  "exports (run_script [] [''train.py''] part_002_script) = [] \<and>
   map launch_env (launched (run_script [] [''train.py''] part_002_script)) = [[]] \<and>
   map argv (launched (run_script [] [''train.py''] part_002_script)) =
     [[''srun'', ''python3.7'', ''train.py'']]"
  by (simp add: run_part_002_script shell_words_def is_blank_def)

text \<open>
  Claim C5, amended. Five of the seven scripts export a data directory \<open>DATADIR\<close> and the
  cache directories \<open>KERAS_HOME\<close> and \<open>TRANSFORMERS_CACHE\<close>; the script of
  \<open>src/unnamed/part_000\<close> exports \<open>DATADIR\<close> only and the script of \<open>src/unnamed/part_002\<close>
  exports nothing. In every script all exports come before the interpreter is started:
  the interpreter a script starts runs in the script's final environment, in which every
  exported variable has the exported value.
\<close>

theorem scripts_export_directories:
  "map (\<lambda>s. map fst (exports (run_script env0 args s))) batch_scripts =
     [[''DATADIR'', ''KERAS_HOME'', ''TRANSFORMERS_CACHE''],
      [''DATADIR'', ''KERAS_HOME'', ''TRANSFORMERS_CACHE''],
      [''DATADIR'', ''KERAS_HOME'', ''TRANSFORMERS_CACHE''],
      [''DATADIR''],
      [''DATADIR'', ''KERAS_HOME'', ''TRANSFORMERS_CACHE''],
      [],
      [''DATADIR'', ''KERAS_HOME'', ''TRANSFORMERS_CACHE'']] \<and>
   map (\<lambda>s. map launch_env (launched (run_script env0 args s))) batch_scripts =
     map (\<lambda>s. [env (run_script env0 args s)]) batch_scripts \<and>
   map (\<lambda>s. map (\<lambda>(n, v). map_of (env (run_script env0 args s)) n = Some v)
               (exports (run_script env0 args s))) batch_scripts =
     map (\<lambda>s. map (\<lambda>_. True) (exports (run_script env0 args s))) batch_scripts"
  by (simp add: batch_scripts_def run_scripts Let_def update_conv')

end
